theory Spec2Isabelle
  imports Main "HOL-Library.Sublist"
begin

section \<open>The filter hierarchy of \<^verbatim>\<open>beanbot/ops/filter.py\<close>\<close>

text \<open>
  The module defines five classes: \<^verbatim>\<open>BaseFilter\<close>, \<^verbatim>\<open>TransactionFilter\<close>,
  \<^verbatim>\<open>BalancedTransactionFilter\<close>, \<^verbatim>\<open>UnbalancedTransactionFilter\<close> and
  \<^verbatim>\<open>PredictedTransactionFilter\<close>. Only \<^verbatim>\<open>BaseFilter\<close> defines \<^verbatim>\<open>filter\<close>; the
  subclasses override the hook \<^verbatim>\<open>_cond_impl\<close> and the constructor. The embedding keeps
  the class of an instance as a tag, resolves methods along the method resolution order
  as Python does, and returns every exception as a value.
\<close>

subsection \<open>Exceptions, entries and the external predicates\<close>

datatype exn =
    NameError string
  | TypeError string
  | AttributeError string
  | OtherError string

text \<open>
  An entry is a beancount directive. The module looks at one thing only: whether the
  entry is an instance of \<^verbatim>\<open>data.Transaction\<close>. The payloads are left open.
\<close>

datatype ('t, 'd) directive = Transaction 't | NonTransaction 'd

definition isinstance_Transaction :: "('t, 'd) directive \<Rightarrow> bool" where
  "isinstance_Transaction entry =
     (case entry of Transaction _ \<Rightarrow> True | NonTransaction _ \<Rightarrow> False)"

text \<open>
  \<^verbatim>\<open>from beanbot.ops.conditions import is_balanced, is_predicted\<close>: the two predicates
  live in another module, so they are parameters of the model. They are called on
  whatever entry the list holds and may raise.
\<close>

record ('t, 'd, 'o) conditions =
  is_balanced :: "('t, 'd) directive \<Rightarrow> 'o \<Rightarrow> exn + bool"
  is_predicted :: "('t, 'd) directive \<Rightarrow> exn + bool"

subsection \<open>Classes, method resolution order and attribute lookup\<close>

datatype pyclass =
    Object
  | BaseFilter
  | TransactionFilter
  | BalancedTransactionFilter
  | UnbalancedTransactionFilter
  | PredictedTransactionFilter

fun depth :: "pyclass \<Rightarrow> nat" where
  "depth Object = 0"
| "depth BaseFilter = 1"
| "depth TransactionFilter = 2"
| "depth BalancedTransactionFilter = 3"
| "depth UnbalancedTransactionFilter = 4"
| "depth PredictedTransactionFilter = 3"

text \<open>One equation per \<^verbatim>\<open>class X(Y):\<close> statement; inheritance is single.\<close>

function mro :: "pyclass \<Rightarrow> pyclass list" where
  "mro Object = [Object]"
| "mro BaseFilter = BaseFilter # mro Object"
| "mro TransactionFilter = TransactionFilter # mro BaseFilter"
| "mro BalancedTransactionFilter = BalancedTransactionFilter # mro TransactionFilter"
| "mro UnbalancedTransactionFilter = UnbalancedTransactionFilter # mro BalancedTransactionFilter"
| "mro PredictedTransactionFilter = PredictedTransactionFilter # mro TransactionFilter"
  by pat_completeness auto
termination
  by (relation "measure depth") auto

text \<open>
  The names bound in each class body (for \<^verbatim>\<open>object\<close>: its methods). No class
  other than \<^verbatim>\<open>BaseFilter\<close> binds \<^verbatim>\<open>filter\<close>.
\<close>

fun class_dict :: "pyclass \<Rightarrow> string list" where
  "class_dict Object =
     [''__class__'', ''__delattr__'', ''__dir__'', ''__doc__'', ''__eq__'', ''__format__'',
      ''__ge__'', ''__getattribute__'', ''__getstate__'', ''__gt__'', ''__hash__'',
      ''__init__'', ''__init_subclass__'', ''__le__'', ''__lt__'', ''__ne__'', ''__new__'',
      ''__reduce__'', ''__reduce_ex__'', ''__repr__'', ''__setattr__'', ''__sizeof__'',
      ''__str__'', ''__subclasshook__'']"
| "class_dict BaseFilter =
     [''__doc__'', ''__init__'', ''filter'', ''_filter_impl'', ''_test_condition'',
      ''_cond_impl'']"
| "class_dict TransactionFilter = [''__doc__'', ''_cond_impl'']"
| "class_dict BalancedTransactionFilter = [''__doc__'', ''__init__'', ''_cond_impl'']"
| "class_dict UnbalancedTransactionFilter = [''__doc__'', ''__init__'']"
| "class_dict PredictedTransactionFilter = [''__doc__'', ''_cond_impl'']"

definition lookup_from :: "pyclass list \<Rightarrow> string \<Rightarrow> pyclass option" where
  "lookup_from cs name = find (\<lambda>k. name \<in> set (class_dict k)) cs"

text \<open>\<^verbatim>\<open>self.name\<close> for a method: the first class of the instance's MRO that binds it.\<close>

definition resolve :: "pyclass \<Rightarrow> string \<Rightarrow> pyclass option" where
  "resolve c name = lookup_from (mro c) name"

text \<open>
  \<^verbatim>\<open>super().name\<close> in the body of class \<open>this\<close>, on an instance of class \<open>c\<close>: the
  lookup starts after \<open>this\<close> in the MRO of \<open>c\<close>.
\<close>

definition super_resolve :: "pyclass \<Rightarrow> pyclass \<Rightarrow> string \<Rightarrow> pyclass option" where
  "super_resolve this c name = lookup_from (drop 1 (dropWhile (\<lambda>k. k \<noteq> this) (mro c))) name"

definition hasattr_super :: "pyclass \<Rightarrow> pyclass \<Rightarrow> string \<Rightarrow> bool" where
  "hasattr_super this c name = (super_resolve this c name \<noteq> None)"

subsection \<open>Instances\<close>

text \<open>
  An instance carries its class and the two attributes the constructors assign. An
  attribute that has not been assigned is \<open>None\<close>; reading it raises AttributeError.
\<close>

record 'o filter_obj =
  cls :: pyclass
  inverse_condition :: "bool option"
  options_map :: "'o option"

definition getattr :: "string \<Rightarrow> 'a option \<Rightarrow> exn + 'a" where
  "getattr name v = (case v of None \<Rightarrow> Inl (AttributeError name) | Some x \<Rightarrow> Inr x)"

text \<open>
  The names bound at module level by the imports and the class statements. A name that
  is read inside a function and is neither local nor bound here (the builtins have no
  \<^verbatim>\<open>transactions_latest\<close> either) raises NameError.
\<close>

definition module_globals :: "string list" where
  "module_globals =
     [''ABC'', ''abstractmethod'', ''FrozenSet'', ''List'', ''Set'', ''data'', ''interpolate'',
      ''re'', ''is_balanced'', ''is_predicted'', ''BaseFilter'', ''TransactionFilter'',
      ''BalancedTransactionFilter'', ''UnbalancedTransactionFilter'',
      ''PredictedTransactionFilter'', ''__name__'', ''__doc__'', ''__package__'',
      ''__loader__'', ''__spec__'', ''__file__'', ''__cached__'', ''__builtins__'']"

definition load_global :: "string \<Rightarrow> exn + string" where
  "load_global name = (if name \<in> set module_globals then Inr name else Inl (NameError name))"

subsection \<open>Constructors\<close>

text \<open>\<^verbatim>\<open>BaseFilter.__init__\<close> (line 24).\<close>

definition BaseFilter_init :: "'o filter_obj \<Rightarrow> exn + 'o filter_obj" where
  "BaseFilter_init self = Inr (self\<lparr>inverse_condition := Some False\<rparr>)"

text \<open>
  \<^verbatim>\<open>BalancedTransactionFilter.__init__\<close> (line 56). \<^verbatim>\<open>super().__init__()\<close> is
  \<^verbatim>\<open>BaseFilter.__init__\<close>, see \<open>super_init_Balanced\<close> below.
\<close>

definition BalancedTransactionFilter_init :: "'o filter_obj \<Rightarrow> 'o \<Rightarrow> exn + 'o filter_obj" where
  "BalancedTransactionFilter_init self om =
     (case BaseFilter_init self of
        Inl e \<Rightarrow> Inl e
      | Inr self1 \<Rightarrow> Inr (self1\<lparr>options_map := Some om\<rparr>))"

text \<open>
  \<^verbatim>\<open>UnbalancedTransactionFilter.__init__\<close> (line 67). The lines 72 to 97 are comments
  and blank lines, which Python's lexer skips when it computes indentation; line 98,
  \<^verbatim>\<open>return transactions_latest\<close>, is indented by eight spaces like lines 68 and 69
  and is therefore the third statement of this constructor. It reads a global name.
  Had the name been bound, the constructor would return a value other than
  \<^verbatim>\<open>None\<close>, which the instantiation rejects with TypeError.
\<close>

definition UnbalancedTransactionFilter_init :: "'o filter_obj \<Rightarrow> 'o \<Rightarrow> exn + 'o filter_obj" where
  "UnbalancedTransactionFilter_init self om =
     (case BalancedTransactionFilter_init self om of
        Inl e \<Rightarrow> Inl e
      | Inr self1 \<Rightarrow>
          (let self2 = self1\<lparr>inverse_condition := Some True\<rparr> in
           case load_global ''transactions_latest'' of
             Inl e \<Rightarrow> Inl e
           | Inr _ \<Rightarrow> Inl (TypeError ''__init__() should return None'')))"

text \<open>
  The call \<^verbatim>\<open>C()\<close> or \<^verbatim>\<open>C(options_map)\<close>: a fresh instance of \<open>c\<close> without
  attributes, initialised by the \<^verbatim>\<open>__init__\<close> the class resolves to. The argument
  is \<open>None\<close> for a call without arguments.
\<close>

definition instantiate :: "pyclass \<Rightarrow> 'o option \<Rightarrow> exn + 'o filter_obj" where
  "instantiate c arg =
     (let self = \<lparr>cls = c, inverse_condition = None, options_map = None\<rparr> in
      case resolve c ''__init__'' of
        Some BaseFilter \<Rightarrow>
          (case arg of
             None \<Rightarrow> BaseFilter_init self
           | Some _ \<Rightarrow> Inl (TypeError ''__init__() takes 1 positional argument but 2 were given''))
      | Some BalancedTransactionFilter \<Rightarrow>
          (case arg of
             None \<Rightarrow> Inl (TypeError ''__init__() missing 1 required positional argument'')
           | Some om \<Rightarrow> BalancedTransactionFilter_init self om)
      | Some UnbalancedTransactionFilter \<Rightarrow>
          (case arg of
             None \<Rightarrow> Inl (TypeError ''__init__() missing 1 required positional argument'')
           | Some om \<Rightarrow> UnbalancedTransactionFilter_init self om)
      | _ \<Rightarrow>
          (case arg of
             None \<Rightarrow> Inr self
           | Some _ \<Rightarrow> Inl (TypeError ''takes no arguments'')))"

subsection \<open>The condition hooks\<close>

text \<open>\<^verbatim>\<open>BaseFilter._cond_impl\<close> (line 43).\<close>

definition BaseFilter_cond_impl :: "'o filter_obj \<Rightarrow> ('t, 'd) directive \<Rightarrow> exn + bool" where
  "BaseFilter_cond_impl self entry = Inr True"

text \<open>\<^verbatim>\<open>TransactionFilter._cond_impl\<close> (line 49).\<close>

definition TransactionFilter_cond_impl :: "'o filter_obj \<Rightarrow> ('t, 'd) directive \<Rightarrow> exn + bool" where
  "TransactionFilter_cond_impl self entry = Inr (isinstance_Transaction entry)"

text \<open>\<^verbatim>\<open>BalancedTransactionFilter._cond_impl\<close> (line 60).\<close>

definition BalancedTransactionFilter_cond_impl ::
  "('t, 'd, 'o) conditions \<Rightarrow> 'o filter_obj \<Rightarrow> ('t, 'd) directive \<Rightarrow> exn + bool" where
  "BalancedTransactionFilter_cond_impl ops self entry =
     (case getattr ''_options_map'' (options_map self) of
        Inl e \<Rightarrow> Inl e
      | Inr om \<Rightarrow> is_balanced ops entry om)"

text \<open>\<^verbatim>\<open>PredictedTransactionFilter._cond_impl\<close> (line 104).\<close>

definition PredictedTransactionFilter_cond_impl ::
  "('t, 'd, 'o) conditions \<Rightarrow> 'o filter_obj \<Rightarrow> ('t, 'd) directive \<Rightarrow> exn + bool" where
  "PredictedTransactionFilter_cond_impl ops self entry = is_predicted ops entry"

text \<open>
  The call \<^verbatim>\<open>self._cond_impl(entry)\<close>: dynamic dispatch on the class of the instance.
\<close>

definition cond_impl ::
  "('t, 'd, 'o) conditions \<Rightarrow> 'o filter_obj \<Rightarrow> ('t, 'd) directive \<Rightarrow> exn + bool" where
  "cond_impl ops self entry =
     (case resolve (cls self) ''_cond_impl'' of
        Some BaseFilter \<Rightarrow> BaseFilter_cond_impl self entry
      | Some TransactionFilter \<Rightarrow> TransactionFilter_cond_impl self entry
      | Some BalancedTransactionFilter \<Rightarrow> BalancedTransactionFilter_cond_impl ops self entry
      | Some PredictedTransactionFilter \<Rightarrow> PredictedTransactionFilter_cond_impl ops self entry
      | _ \<Rightarrow> Inl (AttributeError ''_cond_impl''))"

subsection \<open>The filter engine of \<^verbatim>\<open>BaseFilter\<close>\<close>

text \<open>\<^verbatim>\<open>BaseFilter._test_condition\<close> (line 37).\<close>

definition BaseFilter_test_condition ::
  "('t, 'd, 'o) conditions \<Rightarrow> 'o filter_obj \<Rightarrow> ('t, 'd) directive \<Rightarrow> exn + bool" where
  "BaseFilter_test_condition ops self entry =
     (case cond_impl ops self entry of
        Inl e \<Rightarrow> Inl e
      | Inr condition \<Rightarrow>
          (case getattr ''_inverse_condition'' (inverse_condition self) of
             Inl e \<Rightarrow> Inl e
           | Inr negate \<Rightarrow> Inr (if negate then \<not> condition else condition)))"

text \<open>
  \<^verbatim>\<open>BaseFilter._filter_impl\<close> (line 34): the list comprehension tests the entries from
  left to right; the first exception ends it.
\<close>

fun BaseFilter_filter_impl ::
  "('t, 'd, 'o) conditions \<Rightarrow> 'o filter_obj \<Rightarrow> ('t, 'd) directive list
     \<Rightarrow> exn + ('t, 'd) directive list" where
  "BaseFilter_filter_impl ops self [] = Inr []"
| "BaseFilter_filter_impl ops self (entry # entries) =
     (case BaseFilter_test_condition ops self entry of
        Inl e \<Rightarrow> Inl e
      | Inr keep \<Rightarrow>
          (case BaseFilter_filter_impl ops self entries of
             Inl e \<Rightarrow> Inl e
           | Inr rest \<Rightarrow> Inr (if keep then entry # rest else rest)))"

text \<open>
  \<^verbatim>\<open>BaseFilter.filter\<close> (line 27). The zero-argument \<^verbatim>\<open>super()\<close> in this body is
  \<^verbatim>\<open>super(BaseFilter, self)\<close>. Every \<^verbatim>\<open>filter\<close> of the module takes the
  entries as a required argument, so the call \<^verbatim>\<open>super().filter()\<close> of line 31, if
  it is reached, raises TypeError.
\<close>

definition BaseFilter_filter ::
  "('t, 'd, 'o) conditions \<Rightarrow> 'o filter_obj \<Rightarrow> ('t, 'd) directive list
     \<Rightarrow> exn + ('t, 'd) directive list" where
  "BaseFilter_filter ops self entries =
     (if cls self = BaseFilter then Inr entries
      else if hasattr_super BaseFilter (cls self) ''filter''
        then Inl (TypeError ''filter() missing 1 required positional argument'')
        else BaseFilter_filter_impl ops self entries)"

text \<open>The expression \<^verbatim>\<open>C(...).filter(entries)\<close>.\<close>

definition construct_and_filter ::
  "('t, 'd, 'o) conditions \<Rightarrow> pyclass \<Rightarrow> 'o option \<Rightarrow> ('t, 'd) directive list
     \<Rightarrow> exn + ('t, 'd) directive list" where
  "construct_and_filter ops c arg entries =
     (case instantiate c arg of
        Inl e \<Rightarrow> Inl e
      | Inr self \<Rightarrow> BaseFilter_filter ops self entries)"

subsection \<open>Two implementations of the external predicates and a ledger, for evaluation\<close>

text \<open>
  A transaction is a name with two flags: whether its postings balance and whether a
  posting was predicted. \<open>strict_conditions\<close> reads the postings of its argument, which
  a directive other than a transaction does not have; \<open>lenient_conditions\<close> treats a
  directive without postings as balanced and as not predicted.
\<close>

definition strict_conditions :: "(string \<times> bool \<times> bool, string, nat) conditions" where
  "strict_conditions =
     \<lparr>is_balanced = (\<lambda>entry om. case entry of
          Transaction (n, b, p) \<Rightarrow> Inr b
        | NonTransaction d \<Rightarrow> Inl (AttributeError ''postings'')),
      is_predicted = (\<lambda>entry. case entry of
          Transaction (n, b, p) \<Rightarrow> Inr p
        | NonTransaction d \<Rightarrow> Inl (AttributeError ''postings''))\<rparr>"

definition lenient_conditions :: "(string \<times> bool \<times> bool, string, nat) conditions" where
  "lenient_conditions =
     \<lparr>is_balanced = (\<lambda>entry om. case entry of
          Transaction (n, b, p) \<Rightarrow> Inr b
        | NonTransaction d \<Rightarrow> Inr True),
      is_predicted = (\<lambda>entry. case entry of
          Transaction (n, b, p) \<Rightarrow> Inr p
        | NonTransaction d \<Rightarrow> Inr False)\<rparr>"

text \<open>
  The ledger: A balanced, B unbalanced, a price directive C, D balanced with a predicted
  posting.
\<close>

definition scenario :: "(string \<times> bool \<times> bool, string) directive list" where
  "scenario =
     [Transaction (''A'', True, False), Transaction (''B'', False, False),
      NonTransaction ''Price C'', Transaction (''D'', True, True)]"

section \<open>Method resolution\<close>

lemma no_super_filter: "\<not> hasattr_super BaseFilter c ''filter''"
  by (cases c) (simp_all add: hasattr_super_def super_resolve_def lookup_from_def)

lemma resolve_cond_impl:
  "resolve Object ''_cond_impl'' = None"
  "resolve BaseFilter ''_cond_impl'' = Some BaseFilter"
  "resolve TransactionFilter ''_cond_impl'' = Some TransactionFilter"
  "resolve BalancedTransactionFilter ''_cond_impl'' = Some BalancedTransactionFilter"
  "resolve UnbalancedTransactionFilter ''_cond_impl'' = Some BalancedTransactionFilter"
  "resolve PredictedTransactionFilter ''_cond_impl'' = Some PredictedTransactionFilter"
  by (simp_all add: resolve_def lookup_from_def)

lemma resolve_init:
  "resolve BaseFilter ''__init__'' = Some BaseFilter"
  "resolve TransactionFilter ''__init__'' = Some BaseFilter"
  "resolve BalancedTransactionFilter ''__init__'' = Some BalancedTransactionFilter"
  "resolve UnbalancedTransactionFilter ''__init__'' = Some UnbalancedTransactionFilter"
  "resolve PredictedTransactionFilter ''__init__'' = Some BaseFilter"
  by (simp_all add: resolve_def lookup_from_def)

text \<open>
  \<^verbatim>\<open>self.filter\<close>, \<^verbatim>\<open>self._filter_impl\<close> and \<^verbatim>\<open>self._test_condition\<close> are the
  methods of \<^verbatim>\<open>BaseFilter\<close> on an instance of every class of the module.
\<close>

lemma resolve_engine:
  "c \<noteq> Object \<Longrightarrow> resolve c ''filter'' = Some BaseFilter"
  "c \<noteq> Object \<Longrightarrow> resolve c ''_filter_impl'' = Some BaseFilter"
  "c \<noteq> Object \<Longrightarrow> resolve c ''_test_condition'' = Some BaseFilter"
  by (cases c; simp add: resolve_def lookup_from_def)+

text \<open>
  The two \<^verbatim>\<open>super().__init__\<close> calls reach the constructors that the definitions
  above call.
\<close>

lemma super_init_Balanced:
  "super_resolve BalancedTransactionFilter BalancedTransactionFilter ''__init__'' = Some BaseFilter"
  "super_resolve BalancedTransactionFilter UnbalancedTransactionFilter ''__init__'' = Some BaseFilter"
  by (simp_all add: super_resolve_def lookup_from_def)

lemma super_init_Unbalanced:
  "super_resolve UnbalancedTransactionFilter UnbalancedTransactionFilter ''__init__''
     = Some BalancedTransactionFilter"
  by (simp add: super_resolve_def lookup_from_def)

section \<open>Construction\<close>

lemma instantiate_simps:
  "instantiate BaseFilter None =
     Inr \<lparr>cls = BaseFilter, inverse_condition = Some False, options_map = None\<rparr>"
  "instantiate TransactionFilter None =
     Inr \<lparr>cls = TransactionFilter, inverse_condition = Some False, options_map = None\<rparr>"
  "instantiate PredictedTransactionFilter None =
     Inr \<lparr>cls = PredictedTransactionFilter, inverse_condition = Some False, options_map = None\<rparr>"
  "instantiate BalancedTransactionFilter (Some om) =
     Inr \<lparr>cls = BalancedTransactionFilter, inverse_condition = Some False, options_map = Some om\<rparr>"
  by (simp_all add: instantiate_def resolve_init BaseFilter_init_def
      BalancedTransactionFilter_init_def)

lemma transactions_latest_unbound:
  "load_global ''transactions_latest'' = Inl (NameError ''transactions_latest'')"
  by (simp add: load_global_def module_globals_def)

lemma Unbalanced_init_raises:
  "UnbalancedTransactionFilter_init self om = Inl (NameError ''transactions_latest'')"
  by (simp add: UnbalancedTransactionFilter_init_def BalancedTransactionFilter_init_def
      BaseFilter_init_def transactions_latest_unbound)

lemma instantiate_Unbalanced:
  "instantiate UnbalancedTransactionFilter (Some om) = Inl (NameError ''transactions_latest'')"
  by (simp add: instantiate_def resolve_init Unbalanced_init_raises)

section \<open>The list comprehension\<close>

lemma filter_impl_subseq:
  "BaseFilter_filter_impl ops self S = Inr R \<Longrightarrow> subseq R S"
  by (induction S arbitrary: R) (auto split: sum.splits if_splits)

lemma filter_impl_pure:
  "\<forall>e\<in>set S. BaseFilter_test_condition ops self e = Inr (P e)
     \<Longrightarrow> BaseFilter_filter_impl ops self S = Inr (filter P S)"
  by (induction S) auto

lemma filter_impl_returns:
  "\<forall>e\<in>set S. \<exists>b. BaseFilter_test_condition ops self e = Inr b
     \<Longrightarrow> \<exists>R. BaseFilter_filter_impl ops self S = Inr R"
  by (induction S) auto

lemma filter_impl_raises:
  "BaseFilter_filter_impl ops self S = Inl err
     \<Longrightarrow> \<exists>e\<in>set S. BaseFilter_test_condition ops self e = Inl err"
  by (induction S) (auto split: sum.splits)

lemma filter_not_base:
  "cls self \<noteq> BaseFilter
     \<Longrightarrow> BaseFilter_filter ops self S = BaseFilter_filter_impl ops self S"
  by (simp add: BaseFilter_filter_def no_super_filter)

lemmas hook_defs =
  BaseFilter_test_condition_def cond_impl_def resolve_cond_impl getattr_def
  BaseFilter_cond_impl_def TransactionFilter_cond_impl_def
  BalancedTransactionFilter_cond_impl_def PredictedTransactionFilter_cond_impl_def

lemmas fixture_defs = strict_conditions_def lenient_conditions_def scenario_def

section \<open>The transaction filter and the base filter\<close>

text \<open>
  Claim C7. On any sequence of entries, transactions and other directives mixed,
  \<^verbatim>\<open>TransactionFilter().filter(S)\<close> returns exactly the transactions of \<open>S\<close> in their
  original order.
\<close>

theorem TransactionFilter_exact:
  "construct_and_filter ops TransactionFilter None S = Inr (filter isinstance_Transaction S)"
proof -
  let ?self = "\<lparr>cls = TransactionFilter, inverse_condition = Some False,
                 options_map = None\<rparr> :: 'c filter_obj"
  have "\<forall>e\<in>set S. BaseFilter_test_condition ops ?self e = Inr (isinstance_Transaction e)"
    by (simp add: hook_defs)
  then have "BaseFilter_filter_impl ops ?self S = Inr (filter isinstance_Transaction S)"
    by (rule filter_impl_pure)
  then show ?thesis
    by (simp add: construct_and_filter_def instantiate_simps filter_not_base)
qed

text \<open>
  Claim C8. \<^verbatim>\<open>BaseFilter().filter(S)\<close> returns \<open>S\<close>, and so does \<^verbatim>\<open>filter\<close> on any
  instance whose class is exactly \<^verbatim>\<open>BaseFilter\<close>, whatever its attributes.
\<close>

theorem BaseFilter_identity:
  "construct_and_filter ops BaseFilter None S = Inr S
   \<and> BaseFilter_filter ops (self\<lparr>cls := BaseFilter\<rparr>) S = Inr S"
  by (simp add: construct_and_filter_def instantiate_simps BaseFilter_filter_def)

section \<open>Every filter returns a subsequence\<close>

text \<open>
  Claim C9. For an instance of any class of the hierarchy, in any state, and any
  sequence \<open>S\<close>: whenever \<^verbatim>\<open>filter(S)\<close> returns a list, that list is a subsequence of
  \<open>S\<close> (order kept, nothing added) and is no longer than \<open>S\<close>; and it does return a
  list whenever the condition test raises on no entry of \<open>S\<close>.
\<close>

theorem filter_subsequence:
  "(BaseFilter_filter ops self S = Inr R \<longrightarrow> subseq R S \<and> length R \<le> length S)
   \<and> ((\<forall>e\<in>set S. \<exists>b. BaseFilter_test_condition ops self e = Inr b)
        \<longrightarrow> (\<exists>R'. BaseFilter_filter ops self S = Inr R'))"
proof (cases "cls self = BaseFilter")
  case True
  then show ?thesis by (simp add: BaseFilter_filter_def)
next
  case False
  then have eq: "BaseFilter_filter ops self S = BaseFilter_filter_impl ops self S"
    by (rule filter_not_base)
  have "subseq R S \<and> length R \<le> length S" if "BaseFilter_filter_impl ops self S = Inr R"
    using filter_impl_subseq [OF that] by (simp add: list_emb_length)
  then show ?thesis
    using eq filter_impl_returns [of S ops self] by simp
qed

theorem filter_subsequence_witness:
  "\<exists>R. BaseFilter_filter lenient_conditions
          \<lparr>cls = PredictedTransactionFilter, inverse_condition = Some False,
           options_map = None\<rparr> scenario = Inr R
       \<and> R = [Transaction (''D'', True, True)]
       \<and> subseq R scenario \<and> length R \<le> length scenario"
proof -
  let ?self = "\<lparr>cls = PredictedTransactionFilter, inverse_condition = Some False,
                 options_map = None\<rparr> :: nat filter_obj"
  let ?R = "[Transaction (''D'', True, True)] :: (string \<times> bool \<times> bool, string) directive list"
  have run: "BaseFilter_filter lenient_conditions ?self scenario = Inr ?R"
    by (simp add: filter_not_base hook_defs fixture_defs)
  have hooks:
    "\<forall>e\<in>set scenario. \<exists>b. BaseFilter_test_condition lenient_conditions ?self e = Inr b"
    by (auto simp add: hook_defs fixture_defs)
  note sub = filter_subsequence [of lenient_conditions ?self scenario ?R]
  from sub [THEN conjunct1] run
  have kept: "subseq ?R scenario \<and> length ?R \<le> length scenario"
    by (rule mp)
  from sub [THEN conjunct2] hooks
  have "\<exists>R'. BaseFilter_filter lenient_conditions ?self scenario = Inr R'"
    by (rule mp)
  show ?thesis
    by (intro exI [of _ ?R] conjI run refl kept [THEN conjunct1] kept [THEN conjunct2])
qed

section \<open>The delegation branch of \<^verbatim>\<open>filter\<close>\<close>

text \<open>
  Claim C10. For every class \<open>c\<close> of the module, \<^verbatim>\<open>hasattr(super(), 'filter')\<close> in
  \<^verbatim>\<open>BaseFilter.filter\<close> is false, so the branch that calls \<^verbatim>\<open>super().filter()\<close> is
  never taken. On an instance of a class other than \<^verbatim>\<open>BaseFilter\<close>, \<^verbatim>\<open>filter\<close> is
  the list comprehension alone; the hook it tests is the most derived one (the instance
  test for the transaction filter, \<^verbatim>\<open>is_balanced\<close> for the balanced and the unbalanced
  filter, \<^verbatim>\<open>is_predicted\<close> for the predicted filter), with no condition of an ancestor;
  and where the hook raises on no entry, the result is the list of the entries whose hook
  value differs from the inversion flag.
\<close>

theorem delegation_unreachable:
  "\<not> hasattr_super BaseFilter c ''filter''
   \<and> (cls self \<noteq> BaseFilter
        \<longrightarrow> BaseFilter_filter ops self S = BaseFilter_filter_impl ops self S)
   \<and> (cls self = TransactionFilter
        \<longrightarrow> cond_impl ops self e = Inr (isinstance_Transaction e))
   \<and> (cls self = BalancedTransactionFilter \<or> cls self = UnbalancedTransactionFilter
        \<longrightarrow> cond_impl ops self e =
             (case options_map self of
                None \<Rightarrow> Inl (AttributeError ''_options_map'')
              | Some om \<Rightarrow> is_balanced ops e om))
   \<and> (cls self = PredictedTransactionFilter \<longrightarrow> cond_impl ops self e = is_predicted ops e)
   \<and> (cls self \<noteq> BaseFilter \<and> inverse_condition self = Some flag
       \<and> (\<forall>x\<in>set S. cond_impl ops self x = Inr (h x))
        \<longrightarrow> BaseFilter_filter ops self S = Inr (filter (\<lambda>x. h x \<noteq> flag) S))"
proof -
  have pure: "BaseFilter_filter ops self S = Inr (filter (\<lambda>x. h x \<noteq> flag) S)"
    if nb: "cls self \<noteq> BaseFilter" and fl: "inverse_condition self = Some flag"
      and hk: "\<forall>x\<in>set S. cond_impl ops self x = Inr (h x)"
  proof -
    have "\<forall>x\<in>set S. BaseFilter_test_condition ops self x = Inr (h x \<noteq> flag)"
      using fl hk by (auto simp add: BaseFilter_test_condition_def getattr_def)
    then have "BaseFilter_filter_impl ops self S = Inr (filter (\<lambda>x. h x \<noteq> flag) S)"
      by (rule filter_impl_pure)
    then show ?thesis using nb by (simp add: filter_not_base)
  qed
  have hooks:
    "cls self = TransactionFilter \<longrightarrow> cond_impl ops self e = Inr (isinstance_Transaction e)"
    "cls self = BalancedTransactionFilter \<or> cls self = UnbalancedTransactionFilter
        \<longrightarrow> cond_impl ops self e =
             (case options_map self of
                None \<Rightarrow> Inl (AttributeError ''_options_map'')
              | Some om \<Rightarrow> is_balanced ops e om)"
    "cls self = PredictedTransactionFilter \<longrightarrow> cond_impl ops self e = is_predicted ops e"
    by (auto simp add: hook_defs split: option.splits)
  show ?thesis
    using no_super_filter [of c] filter_not_base [of self ops S] hooks pure by blast
qed

theorem delegation_unreachable_witness:
  "\<not> hasattr_super BaseFilter BalancedTransactionFilter ''filter''
   \<and> BaseFilter_filter lenient_conditions
        \<lparr>cls = BalancedTransactionFilter, inverse_condition = Some False, options_map = Some 0\<rparr>
        scenario
      = Inr [Transaction (''A'', True, False), NonTransaction ''Price C'',
             Transaction (''D'', True, True)]"
proof -
  let ?self = "\<lparr>cls = BalancedTransactionFilter, inverse_condition = Some False,
                 options_map = Some 0\<rparr> :: nat filter_obj"
  let ?h = "\<lambda>x :: (string \<times> bool \<times> bool, string) directive.
              case x of Transaction (n, b, p) \<Rightarrow> b | NonTransaction d \<Rightarrow> True"
  have nb: "cls ?self \<noteq> BaseFilter" by simp
  have fl: "inverse_condition ?self = Some False" by simp
  have hk: "\<forall>x\<in>set scenario. cond_impl lenient_conditions ?self x = Inr (?h x)"
    by (simp add: hook_defs fixture_defs)
  note del = delegation_unreachable [of BalancedTransactionFilter ?self lenient_conditions
      scenario "NonTransaction ''Price C''" False ?h]
  have "BaseFilter_filter lenient_conditions ?self scenario
          = Inr (filter (\<lambda>x. ?h x \<noteq> False) scenario)"
    using nb fl hk del by blast
  moreover have "\<not> hasattr_super BaseFilter BalancedTransactionFilter ''filter''"
    using del by blast
  ultimately show ?thesis by (simp add: scenario_def)
qed

section \<open>The filters derived from the transaction filter\<close>

text \<open>
  The class docstring of \<^verbatim>\<open>BaseFilter\<close> promises that \<^verbatim>\<open>filter\<close> passes the entries
  through the filters of the parent classes before the object's own test. Since the
  delegation branch is dead, a directive that is not a transaction reaches the hook of
  the balanced and of the predicted filter, and the outcome is whatever the external
  predicate does with it.
\<close>

lemma Balanced_single_directive:
  "construct_and_filter ops BalancedTransactionFilter (Some om) [NonTransaction d] =
     (case is_balanced ops (NonTransaction d) om of
        Inl e \<Rightarrow> Inl e
      | Inr b \<Rightarrow> Inr (if b then [NonTransaction d] else []))"
  by (simp add: construct_and_filter_def instantiate_simps filter_not_base hook_defs
      split: sum.splits)

lemma Predicted_single_directive:
  "construct_and_filter ops PredictedTransactionFilter None [NonTransaction d] =
     (case is_predicted ops (NonTransaction d) of
        Inl e \<Rightarrow> Inl e
      | Inr b \<Rightarrow> Inr (if b then [NonTransaction d] else []))"
  by (simp add: construct_and_filter_def instantiate_simps filter_not_base hook_defs
      split: sum.splits)

text \<open>
  Where the predicate returns a value on every entry of \<open>S\<close> and holds of no entry other
  than a transaction, the result is the list of the transactions that satisfy it.
\<close>

lemma Balanced_exact_when_guarded:
  assumes "\<forall>e\<in>set S. is_balanced ops e om = Inr (h e)"
    and "\<forall>e\<in>set S. h e \<longrightarrow> isinstance_Transaction e"
  shows "construct_and_filter ops BalancedTransactionFilter (Some om) S
           = Inr (filter (\<lambda>e. isinstance_Transaction e \<and> h e) S)"
proof -
  let ?self = "\<lparr>cls = BalancedTransactionFilter, inverse_condition = Some False,
                 options_map = Some om\<rparr>"
  have "\<forall>e\<in>set S. BaseFilter_test_condition ops ?self e = Inr (h e)"
    using assms(1) by (simp add: hook_defs)
  then have "BaseFilter_filter_impl ops ?self S = Inr (filter h S)"
    by (rule filter_impl_pure)
  moreover have "filter h S = filter (\<lambda>e. isinstance_Transaction e \<and> h e) S"
    using assms(2) by (intro filter_cong) auto
  ultimately show ?thesis
    by (simp add: construct_and_filter_def instantiate_simps filter_not_base)
qed

lemma Predicted_exact_when_guarded:
  assumes "\<forall>e\<in>set S. is_predicted ops e = Inr (h e)"
    and "\<forall>e\<in>set S. h e \<longrightarrow> isinstance_Transaction e"
  shows "construct_and_filter ops PredictedTransactionFilter None S
           = Inr (filter (\<lambda>e. isinstance_Transaction e \<and> h e) S)"
proof -
  let ?self = "\<lparr>cls = PredictedTransactionFilter, inverse_condition = Some False,
                 options_map = None\<rparr> :: 'c filter_obj"
  have "\<forall>e\<in>set S. BaseFilter_test_condition ops ?self e = Inr (h e)"
    using assms(1) by (simp add: hook_defs)
  then have "BaseFilter_filter_impl ops ?self S = Inr (filter h S)"
    by (rule filter_impl_pure)
  moreover have "filter h S = filter (\<lambda>e. isinstance_Transaction e \<and> h e) S"
    using assms(2) by (intro filter_cong) auto
  ultimately show ?thesis
    by (simp add: construct_and_filter_def instantiate_simps filter_not_base)
qed

text \<open>
  Claim C1 states that a derived filter keeps the entries that satisfy its own condition
  and the condition of every ancestor. On the ledger, with predicates that take a
  directive without postings as balanced, the parent \<^verbatim>\<open>TransactionFilter\<close> rejects the
  price directive C, yet \<^verbatim>\<open>BalancedTransactionFilter(0).filter\<close> returns it.
\<close>

theorem ancestor_condition_not_applied:
  "construct_and_filter lenient_conditions TransactionFilter None scenario
     = Inr [Transaction (''A'', True, False), Transaction (''B'', False, False),
            Transaction (''D'', True, True)]
   \<and> construct_and_filter lenient_conditions BalancedTransactionFilter (Some 0) scenario
     = Inr [Transaction (''A'', True, False), NonTransaction ''Price C'',
            Transaction (''D'', True, True)]"
  by (simp add: construct_and_filter_def instantiate_simps filter_not_base hook_defs
      fixture_defs isinstance_Transaction_def)

text \<open>
  Claim C2 states that \<^verbatim>\<open>BalancedTransactionFilter(cfg).filter(S)\<close> is the list of the
  balanced transactions of \<open>S\<close>. On the ledger, whose balanced transactions are A and D,
  the call raises the AttributeError of \<^verbatim>\<open>is_balanced\<close> when the predicate reads the
  postings of the price directive; and on the price directive alone it returns that
  directive when the predicate takes it as balanced.
\<close>

theorem Balanced_filter_on_directive:
  "construct_and_filter strict_conditions BalancedTransactionFilter (Some 0) scenario
     = Inl (AttributeError ''postings'')
   \<and> construct_and_filter lenient_conditions BalancedTransactionFilter (Some 0)
        [NonTransaction ''Price C'']
     = Inr [NonTransaction ''Price C'']"
  by (simp add: construct_and_filter_def instantiate_simps filter_not_base hook_defs
      fixture_defs)

text \<open>
  Claim C4 states that \<^verbatim>\<open>PredictedTransactionFilter().filter(S)\<close> is the list of the
  predicted transactions of \<open>S\<close>. On the ledger, whose only predicted transaction is D,
  the call raises the AttributeError of \<^verbatim>\<open>is_predicted\<close> when the predicate reads the
  postings of the price directive.
\<close>

theorem Predicted_filter_on_directive:
  "construct_and_filter strict_conditions PredictedTransactionFilter None scenario
     = Inl (AttributeError ''postings'')"
  by (simp add: construct_and_filter_def instantiate_simps filter_not_base hook_defs
      fixture_defs)

section \<open>The unbalanced filter\<close>

text \<open>
  Claim C3 states that \<^verbatim>\<open>UnbalancedTransactionFilter(cfg)\<close> is an instance with the
  inversion flag set. The constructor sets the flag and then runs
  \<^verbatim>\<open>return transactions_latest\<close>: the call raises NameError for every configuration,
  and the constructor returns for no instance.
\<close>

theorem Unbalanced_constructor_raises:
  "instantiate UnbalancedTransactionFilter (Some om) = Inl (NameError ''transactions_latest'')
   \<and> (\<forall>self. UnbalancedTransactionFilter_init self om \<noteq> Inr self')"
  by (simp add: instantiate_Unbalanced Unbalanced_init_raises)

text \<open>
  Claim C6 states that the balanced and the unbalanced filter split a sequence of
  transactions in two. \<^verbatim>\<open>UnbalancedTransactionFilter(cfg).filter(T)\<close> raises NameError
  for every configuration and every sequence, the empty one included, so there is no
  second half.
\<close>

theorem Unbalanced_filter_raises:
  "construct_and_filter ops UnbalancedTransactionFilter (Some om) T
     = Inl (NameError ''transactions_latest'')"
  by (simp add: construct_and_filter_def instantiate_Unbalanced)

text \<open>
  The stray \<^verbatim>\<open>return\<close> is the only obstacle: on the state the constructor has built
  when it reaches line 98, and with an \<^verbatim>\<open>is_balanced\<close> that raises on no entry of \<open>T\<close>,
  the two filters do split \<open>T\<close>, each half in the order of \<open>T\<close>.
\<close>

lemma complement_without_stray_return:
  assumes "\<forall>e\<in>set T. \<exists>b. is_balanced ops e om = Inr b"
  shows "\<exists>B U. BaseFilter_filter ops
             \<lparr>cls = BalancedTransactionFilter, inverse_condition = Some False,
              options_map = Some om\<rparr> T = Inr B
        \<and> BaseFilter_filter ops
             \<lparr>cls = UnbalancedTransactionFilter, inverse_condition = Some True,
              options_map = Some om\<rparr> T = Inr U
        \<and> set B \<inter> set U = {} \<and> set B \<union> set U = set T
        \<and> B = filter (\<lambda>e. e \<in> set B) T \<and> U = filter (\<lambda>e. e \<notin> set B) T"
proof -
  define h where "h e = (is_balanced ops e om = Inr True)" for e
  have hk: "\<forall>e\<in>set T. is_balanced ops e om = Inr (h e)"
    using assms by (auto simp add: h_def)
  let ?b = "\<lparr>cls = BalancedTransactionFilter, inverse_condition = Some False,
              options_map = Some om\<rparr>"
  let ?u = "\<lparr>cls = UnbalancedTransactionFilter, inverse_condition = Some True,
              options_map = Some om\<rparr>"
  have "\<forall>e\<in>set T. BaseFilter_test_condition ops ?b e = Inr (h e)"
    using hk by (simp add: hook_defs)
  then have B: "BaseFilter_filter ops ?b T = Inr (filter h T)"
    by (simp add: filter_not_base filter_impl_pure)
  have "\<forall>e\<in>set T. BaseFilter_test_condition ops ?u e = Inr (\<not> h e)"
    using hk by (simp add: hook_defs)
  then have U: "BaseFilter_filter ops ?u T = Inr (filter (\<lambda>e. \<not> h e) T)"
    by (simp add: filter_not_base filter_impl_pure)
  have "filter h T = filter (\<lambda>e. e \<in> set (filter h T)) T"
    by (rule filter_cong) auto
  moreover have "filter (\<lambda>e. \<not> h e) T = filter (\<lambda>e. e \<notin> set (filter h T)) T"
    by (rule filter_cong) auto
  ultimately show ?thesis
    using B U by (intro exI [of _ "filter h T"] exI [of _ "filter (\<lambda>e. \<not> h e) T"]) auto
qed

end
